theory Spec2Isabelle
  imports Main
begin

section \<open>Strings\<close>

text \<open>
  Script texts and file names are JavaScript strings, modelled as \<open>string\<close>; every offset
  is an index into that list. The two \<open>String.prototype\<close> operations the rewriter uses
  are written out with their clamping: \<open>substring(a, b)\<close> swaps its arguments when
  \<open>a > b\<close> and cuts both at the length, \<open>substring(a)\<close> runs to the end.
\<close>

definition nl :: string where
  "nl = [CHR 0x0A]"

definition dq :: string where
  "dq = [CHR 0x22]"

definition substring :: "string \<Rightarrow> nat \<Rightarrow> nat \<Rightarrow> string" where
  "substring s a b = take (max a b - min a b) (drop (min a b) s)"

definition substring_from :: "string \<Rightarrow> nat \<Rightarrow> string" where
  "substring_from s a = drop a s"

definition startsWith :: "string \<Rightarrow> string \<Rightarrow> bool" where
  "startsWith s p = (take (length p) s = p)"

definition endsWith :: "string \<Rightarrow> string \<Rightarrow> bool" where
  "endsWith s p = (length p \<le> length s \<and> drop (length s - length p) s = p)"

section \<open>Data\<close>

text \<open>
  A \<open>Script\<close> object as far as RewriteImports.ts reads and writes it: its file name, its
  code and the name of the server holding it.
\<close>

record script =
  filename :: string
  code :: string
  server :: string

record base_server =
  hostname :: string
  scripts :: "script list"

text \<open>
  What the parser hands to the \<open>ImportDeclaration\<close> visitor: the value of the source
  literal, the range of the literal (quotes included) and the range of the statement.
\<close>

record import_declaration =
  source_value :: string
  source_range :: "nat \<times> nat"
  node_range :: "nat \<times> nat"

text \<open>
  The object pushed onto \<open>importNodes\<close> (line 41). The field \<open>end\<close> of the source is
  \<open>n_end\<close> here, and \<open>filename\<close>, \<open>start\<close> are prefixed alike. Offsets are naturals:
  \<open>range[1] - 1\<close> of a literal is never negative, and \<open>substring\<close> reads a negative
  offset as 0, which is what truncated subtraction gives.
\<close>

record import_node =
  n_filename :: string
  n_start :: nat
  n_end :: nat
  statementStart :: nat
  statementEnd :: nat

definition import_node_of :: "import_declaration \<Rightarrow> import_node" where
  "import_node_of node =
     \<lparr> n_filename = source_value node,
       n_start = fst (source_range node) + 1,
       n_end = snd (source_range node) - 1,
       statementStart = fst (node_range node),
       statementEnd = snd (node_range node) \<rparr>"

text \<open>
  The collaborators that RewriteImports.ts imports and that are not part of it: the acorn
  parser with the acorn-walk traversal (one entry per import declaration in traversal order,
  or the syntax error as string concatenation renders it), and the four path helpers of
  \<open>Terminal/DirectoryHelpers\<close>; \<open>evaluateFilePath\<close> is called with the parent
  directories of the importer (\<open>Some\<close>) or without them (\<open>None\<close>) and returns a
  path or null. They are parameters of the model; every general theorem below holds for
  all of them.
\<close>

record env =
  parse :: "string \<Rightarrow> string + import_declaration list"
  getAllParentDirectories :: "string \<Rightarrow> string list"
  evaluateFilePath :: "string \<Rightarrow> string list option \<Rightarrow> string option"
  areFilesEqual :: "string \<Rightarrow> string \<Rightarrow> bool"
  areImportsEquals :: "string \<Rightarrow> string \<Rightarrow> bool"

section \<open>convert\<close>

definition comment :: string where
  "comment = ''// This import statement may be broken by a recent upgrade. Check the path to the script.''"

definition original_line :: string where
  "original_line = ''// =============================== original line ===============================''"

definition closing_line :: string where
  "closing_line = ''// =============================================================================''"

text \<open>
  Lines 71-79 and 90-98: the statement is read from the text before the edit, the text
  between \<open>start\<close> and \<open>end\<close> is replaced, and the block is put in at \<open>statementStart\<close>.
  The two branches differ only in the replacement text.
\<close>

definition replace_import :: "string \<Rightarrow> import_node \<Rightarrow> string \<Rightarrow> string" where
  "replace_import transformedCode node replacement =
     (let orig = substring transformedCode (statementStart node) (statementEnd node);
          transformedCode' = substring transformedCode 0 (n_start node) @ replacement
                               @ substring_from transformedCode (n_end node)
      in substring transformedCode' 0 (statementStart node) @ nl
           @ original_line @ nl
           @ ''/**'' @ nl
           @ '' * '' @ orig @ nl
           @ '' */'' @ nl
           @ closing_line @ nl
           @ substring_from transformedCode' (statementStart node))"

text \<open>Line 104, as written: both operands are \<open>substring(0, node.statementStart)\<close>.\<close>

definition place_comment :: "string \<Rightarrow> import_node \<Rightarrow> string" where
  "place_comment transformedCode node =
     substring transformedCode 0 (statementStart node) @ nl @ comment @ nl
       @ substring transformedCode 0 (statementStart node)"

text \<open>
  Lines 84-85: \<open>a || b\<close> takes \<open>b\<close> when \<open>a\<close> is null or the empty string.
\<close>

definition evaluate_in_directory :: "env \<Rightarrow> string list \<Rightarrow> string \<Rightarrow> string option" where
  "evaluate_in_directory e scriptDirectory name =
     (case evaluateFilePath e name (Some scriptDirectory) of
        Some p \<Rightarrow> if p \<noteq> [] then Some p
                  else evaluateFilePath e (name @ ''.js'') (Some scriptDirectory)
      | None \<Rightarrow> evaluateFilePath e (name @ ''.js'') (Some scriptDirectory))"

text \<open>
  Lines 57-60: the name the legacy lookup uses (a leading \<open>./\<close> stripped) and the scripts
  that match it; line 87: the scripts that match a normalized path.
\<close>

definition legacy_name :: "import_node \<Rightarrow> string" where
  "legacy_name node =
     (if startsWith (n_filename node) ''./'' then drop 2 (n_filename node)
      else n_filename node)"

definition matchingScripts :: "env \<Rightarrow> script list \<Rightarrow> import_node \<Rightarrow> script list" where
  "matchingScripts e known node =
     filter (\<lambda>s. areImportsEquals e (filename s) (legacy_name node)) known"

definition rootMatchingScripts :: "env \<Rightarrow> script list \<Rightarrow> string \<Rightarrow> script list" where
  "rootMatchingScripts e known path =
     filter (\<lambda>s. areFilesEqual e (filename s) path) known"

text \<open>The body of the loop of lines 54-105 for one node.\<close>

definition convert_node :: "env \<Rightarrow> string list \<Rightarrow> script list \<Rightarrow> string \<Rightarrow> import_node \<Rightarrow> string" where
  "convert_node e scriptDirectory known transformedCode node =
     (case matchingScripts e known node of
        matchingScript # _ \<Rightarrow>
          (let newFilename = evaluateFilePath e (''/'' @ filename matchingScript) None
           in if newFilename = Some (n_filename node) then transformedCode
              else replace_import transformedCode node (''/'' @ filename matchingScript))
      | [] \<Rightarrow>
          (case evaluate_in_directory e scriptDirectory (n_filename node) of
             Some path \<Rightarrow>
               (case rootMatchingScripts e known path of
                  matchingScript # _ \<Rightarrow>
                    replace_import transformedCode node (filename matchingScript)
                | [] \<Rightarrow> place_comment transformedCode node)
           | None \<Rightarrow> place_comment transformedCode node))"

text \<open>
  Line 51: \<open>sort((a, b) => b.start - a.start)\<close>, a stable sort by descending \<open>start\<close>.
\<close>

definition sort_nodes :: "import_node list \<Rightarrow> import_node list" where
  "sort_nodes importNodes = sort_key (\<lambda>n. - int (n_start n)) importNodes"

definition convert_nodes :: "env \<Rightarrow> string list \<Rightarrow> script list \<Rightarrow> string \<Rightarrow> import_node list \<Rightarrow> string" where
  "convert_nodes e scriptDirectory known transformedCode importNodes =
     foldl (convert_node e scriptDirectory known) transformedCode importNodes"

text \<open>
  \<open>convert\<close> returns the new text, or throws an \<open>Error\<close> whose message is \<open>Inl\<close> here.
\<close>

definition convert :: "env \<Rightarrow> script \<Rightarrow> script list \<Rightarrow> string + string" where
  "convert e scr known =
     (let scriptDirectory = getAllParentDirectories e (filename scr)
      in case parse e (code scr) of
           Inl err \<Rightarrow> Inl (''Error processing script for migration, parse error: '' @ err)
         | Inr ast \<Rightarrow>
             Inr (convert_nodes e scriptDirectory known (code scr)
                    (sort_nodes (map import_node_of ast))))"

section \<open>rewriteImports\<close>

text \<open>
  The inner loop of lines 114-132 over the scripts of one server. The scripts are objects
  that the loop changes in place while \<open>convert\<close> reads \<open>server.scripts\<close>: the array is
  \<open>processed @ script # rest\<close> at the moment \<open>script\<close> is converted. A thrown error is
  caught per script; \<open>${err}\<close> renders an \<open>Error\<close> as \<open>Error: \<close> and its message.
\<close>

definition isMigrated :: "script \<Rightarrow> bool" where
  "isMigrated s = (endsWith (filename s) ''.js'' \<or> endsWith (filename s) ''.ns'')"

definition backup_of :: "script \<Rightarrow> script" where
  "backup_of scr =
     (let backupFilename = filename scr;
          backupFilename = (if \<not> startsWith backupFilename ''/'' then ''/'' @ backupFilename
                            else backupFilename);
          backupFilename = ''/BACKUP'' @ backupFilename
      in \<lparr> filename = backupFilename, code = code scr, server = server scr \<rparr>)"

definition changed_entry :: "string \<Rightarrow> script \<Rightarrow> string" where
  "changed_entry host scr =
     ''// Changed import statements in '' @ filename scr @ '' on '' @ host"

definition failed_entry :: "string \<Rightarrow> script \<Rightarrow> string \<Rightarrow> string" where
  "failed_entry host scr err =
     ''// Failed to convert '' @ filename scr @ '' on '' @ host @ '', reason: ''
       @ ''Error: '' @ err @ nl"

fun convert_scripts ::
  "env \<Rightarrow> string \<Rightarrow> script list \<Rightarrow> script list \<Rightarrow> script list \<Rightarrow> string
     \<Rightarrow> script list \<times> script list \<times> string" where
  "convert_scripts e host processed [] backups txt = (processed, backups, txt)"
| "convert_scripts e host processed (scr # rest) backups txt =
     (if isMigrated scr then
        (case convert e scr (processed @ scr # rest) of
           Inr code' \<Rightarrow>
             if code scr = code' then
               convert_scripts e host (processed @ [scr]) rest backups txt
             else
               convert_scripts e host (processed @ [scr\<lparr>code := code'\<rparr>]) rest
                 (backups @ [backup_of scr]) (txt @ changed_entry host scr)
         | Inl err \<Rightarrow>
             convert_scripts e host (processed @ [scr]) rest backups
               (txt @ failed_entry host scr err))
      else convert_scripts e host (processed @ [scr]) rest backups txt)"

text \<open>The outer loop of lines 112-134; line 133 appends the backups to the server.\<close>

fun convert_servers :: "env \<Rightarrow> base_server list \<Rightarrow> string \<Rightarrow> base_server list \<times> string" where
  "convert_servers e [] txt = ([], txt)"
| "convert_servers e (srv # rest) txt =
     (case convert_scripts e (hostname srv) [] (scripts srv) [] txt of
        (scripts', backups, txt') \<Rightarrow>
          (case convert_servers e rest txt' of
             (rest', txt'') \<Rightarrow> (srv\<lparr>scripts := scripts' @ backups\<rparr> # rest', txt'')))"

text \<open>
  \<open>rewriteImports\<close> takes the servers of \<open>GetAllServers()\<close> and returns them after the
  migration, with the report written to the home computer: \<open>None\<close> when \<open>txt\<close> is empty
  and nothing is written (line 135).
\<close>

definition rewriteImports :: "env \<Rightarrow> base_server list \<Rightarrow> base_server list \<times> (string \<times> string) option" where
  "rewriteImports e servers =
     (case convert_servers e servers [] of
        (servers', txt) \<Rightarrow>
          (servers', if txt \<noteq> [] then Some (''IMPORT_DETECTED_CHANGES.txt'', txt) else None))"

section \<open>Reading the results\<close>

text \<open>
  What the loop of \<open>convert_scripts\<close> does to one script and adds to the report, as
  functions of that script alone: they are what the theorems about the batch compare the
  loop with.
\<close>

definition converted :: "env \<Rightarrow> script list \<Rightarrow> script \<Rightarrow> script" where
  "converted e known scr =
     (if isMigrated scr then
        (case convert e scr known of Inr code' \<Rightarrow> scr\<lparr>code := code'\<rparr> | Inl err \<Rightarrow> scr)
      else scr)"

definition report_entry :: "env \<Rightarrow> string \<Rightarrow> script list \<Rightarrow> script \<Rightarrow> string" where
  "report_entry e host known scr =
     (if isMigrated scr then
        (case convert e scr known of
           Inr code' \<Rightarrow> if code scr = code' then [] else changed_entry host scr
         | Inl err \<Rightarrow> failed_entry host scr err)
      else [])"

definition server_report :: "env \<Rightarrow> base_server \<Rightarrow> string" where
  "server_report e srv =
     concat (map (report_entry e (hostname srv) (scripts srv)) (scripts srv))"

definition migrated_server :: "env \<Rightarrow> base_server \<Rightarrow> base_server" where
  "migrated_server e srv =
     srv\<lparr>scripts := map (converted e (scripts srv)) (scripts srv)
           @ map backup_of (filter (\<lambda>s. converted e (scripts srv) s \<noteq> s) (scripts srv))\<rparr>"

text \<open>
  The invariant of the parser's output that the offsets rely on (the spec's ImportRecord
  invariant, with the quotes of the literal inside the statement): every statement lies in
  the text and holds its specifier, and no two statements overlap.
\<close>

definition wf_node :: "string \<Rightarrow> import_node \<Rightarrow> bool" where
  "wf_node text n =
     (statementStart n < n_start n \<and> n_start n \<le> n_end n \<and> n_end n < statementEnd n
        \<and> statementEnd n \<le> length text)"

fun disjoint_nodes :: "import_node list \<Rightarrow> bool" where
  "disjoint_nodes [] = True"
| "disjoint_nodes (n # ns) =
     (list_all (\<lambda>m. statementEnd m \<le> statementStart n \<or> statementEnd n \<le> statementStart m) ns
        \<and> disjoint_nodes ns)"

definition wf_nodes :: "string \<Rightarrow> import_node list \<Rightarrow> bool" where
  "wf_nodes text ns = (list_all (wf_node text) ns \<and> disjoint_nodes ns)"

text \<open>
  The reference of the range-correctness property, after the spec's words: the
  substitutions are applied one at a time, and the text is parsed again before each of
  them, so that every substitution works on the offsets of the tree of the text it edits.
  The statements are taken in source order: \<open>i\<close> statements have been treated and \<open>n\<close>
  are still to be treated, and the next one is statement \<open>i\<close> of the tree just parsed.
  The substitution is the body of the loop of \<open>convert\<close>.
\<close>

fun convert_one_at_a_time ::
  "env \<Rightarrow> string list \<Rightarrow> script list \<Rightarrow> nat \<Rightarrow> nat \<Rightarrow> string \<Rightarrow> string + string" where
  "convert_one_at_a_time e scriptDirectory known i 0 transformedCode = Inr transformedCode"
| "convert_one_at_a_time e scriptDirectory known i (Suc n) transformedCode =
     (case parse e transformedCode of
        Inl err \<Rightarrow> Inl (''Error processing script for migration, parse error: '' @ err)
      | Inr ast \<Rightarrow>
          (let importNodes = sort_key n_start (map import_node_of ast)
           in if i < length importNodes then
                convert_one_at_a_time e scriptDirectory known (Suc i) n
                  (convert_node e scriptDirectory known transformedCode (importNodes ! i))
              else Inr transformedCode))"

definition convert_reparsing :: "env \<Rightarrow> script \<Rightarrow> script list \<Rightarrow> string + string" where
  "convert_reparsing e scr known =
     (case parse e (code scr) of
        Inl err \<Rightarrow> Inl (''Error processing script for migration, parse error: '' @ err)
      | Inr ast \<Rightarrow>
          convert_one_at_a_time e (getAllParentDirectories e (filename scr)) known 0 (length ast)
            (code scr))"

section \<open>The collaborators, for concrete inputs\<close>

text \<open>
  Modelled from the spec: the path helpers of \<open>Terminal/DirectoryHelpers\<close>
  (\<open>getAllParentDirectories\<close>, \<open>evaluateFilePath\<close>, \<open>areFilesEqual\<close>,
  \<open>areImportsEquals\<close>) are not in the source files at hand. The spec's Path Resolver
  describes them: file names may or may not carry a leading separator and both sides of a
  comparison are normalized alike; \<open>pathsEqualExact\<close> holds for normalized paths that are
  identical; \<open>pathsEqualUnderImportConvention\<close> strips a leading \<open>./\<close> from the compared
  side first; \<open>normalize\<close> resolves \<open>.\<close> and \<open>..\<close> segments against the base directories,
  most specific first, into an absolute path, and gives null when no candidate is a valid
  path; the parent directories are the ancestors of the importer's path, most specific
  first. These definitions are used for concrete inputs only.
\<close>

definition with_leading_slash :: "string \<Rightarrow> string" where
  "with_leading_slash p = (if startsWith p ''/'' then p else ''/'' @ p)"

definition model_areFilesEqual :: "string \<Rightarrow> string \<Rightarrow> bool" where
  "model_areFilesEqual f0 f1 = (with_leading_slash f0 = with_leading_slash f1)"

definition model_areImportsEquals :: "string \<Rightarrow> string \<Rightarrow> bool" where
  "model_areImportsEquals f0 f1 =
     model_areFilesEqual f0 (if startsWith f1 ''./'' then drop 2 f1 else f1)"

fun split_on :: "char \<Rightarrow> string \<Rightarrow> string list" where
  "split_on sep [] = [[]]"
| "split_on sep (c # cs) =
     (if c = sep then [] # split_on sep cs
      else (case split_on sep cs of
              x # xs \<Rightarrow> (c # x) # xs
            | [] \<Rightarrow> [[c]]))"

fun resolve_segments :: "string list \<Rightarrow> string list \<Rightarrow> string list option" where
  "resolve_segments acc [] = Some (rev acc)"
| "resolve_segments acc (d # ds) =
     (if d = ''.'' then resolve_segments acc ds
      else if d = ''..'' then
        (case acc of [] \<Rightarrow> None | _ # acc' \<Rightarrow> resolve_segments acc' ds)
      else if d = [] then None
      else resolve_segments (d # acc) ds)"

definition normalize_absolute :: "string \<Rightarrow> string option" where
  "normalize_absolute p =
     (case resolve_segments [] (split_on (CHR ''/'') (drop 1 p)) of
        None \<Rightarrow> None
      | Some [] \<Rightarrow> None
      | Some (d # ds) \<Rightarrow> Some (concat (map (\<lambda>x. ''/'' @ x) (d # ds))))"

fun first_valid :: "string \<Rightarrow> string list \<Rightarrow> string option" where
  "first_valid p [] = None"
| "first_valid p (d # ds) =
     (case normalize_absolute (d @ p) of
        Some r \<Rightarrow> Some r
      | None \<Rightarrow> first_valid p ds)"

definition model_evaluateFilePath :: "string \<Rightarrow> string list option \<Rightarrow> string option" where
  "model_evaluateFilePath p dirs =
     (if startsWith p ''/'' then normalize_absolute p
      else (case dirs of
              None \<Rightarrow> normalize_absolute (''/'' @ p)
            | Some ds \<Rightarrow> first_valid p ds))"

fun directory_prefixes :: "string \<Rightarrow> string \<Rightarrow> string list" where
  "directory_prefixes pre [] = []"
| "directory_prefixes pre (c # cs) =
     (if c = CHR ''/'' then directory_prefixes (pre @ [c]) cs @ [pre @ [c]]
      else directory_prefixes (pre @ [c]) cs)"

definition model_getAllParentDirectories :: "string \<Rightarrow> string list" where
  "model_getAllParentDirectories p = directory_prefixes [] (with_leading_slash p)"

text \<open>
  Modelled from the spec: the Import Locator. The parser is the acorn library, which is
  outside the repository; the spec describes its result as one record per import
  declaration, in source order, with the range of the statement and the range of the
  specifier literal, or a failure carrying the syntax error. The model reads a
  line-oriented fragment of module syntax: blank lines, \<open>//\<close> comment lines, block
  comments that open at the start of a line and close at the end of one, and lines holding
  one import declaration whose specifier is the first quoted string of the line, without
  escapes, followed by nothing or by one semicolon. Every other text is reported as a
  syntax error, which for texts outside the fragment says nothing about acorn.
\<close>

definition is_quote :: "char \<Rightarrow> bool" where
  "is_quote c = (c = CHR 0x22 \<or> c = CHR 0x27)"

definition scan_import :: "nat \<Rightarrow> string \<Rightarrow> import_declaration option" where
  "scan_import off l =
     (let lead = takeWhile (\<lambda>c. \<not> is_quote c) l;
          from_quote = drop (length lead) l
      in case from_quote of
           [] \<Rightarrow> None
         | q # inner \<Rightarrow>
             (let lit = takeWhile (\<lambda>c. c \<noteq> q) inner;
                  closing = drop (length lit) inner
              in case closing of
                   [] \<Rightarrow> None
                 | _ # trail \<Rightarrow>
                     if CHR 0x5C \<in> set lit \<or> (trail \<noteq> [] \<and> trail \<noteq> '';'') then None
                     else Some \<lparr> source_value = lit,
                                 source_range = (off + length lead,
                                                 off + length lead + length lit + 2),
                                 node_range = (off, off + length l) \<rparr>))"

fun scan_lines :: "nat \<Rightarrow> bool \<Rightarrow> string list \<Rightarrow> string + import_declaration list" where
  "scan_lines off in_comment [] =
     (if in_comment then Inl ''SyntaxError: Unterminated comment'' else Inr [])"
| "scan_lines off in_comment (l # ls) =
     (if in_comment then scan_lines (off + length l + 1) (\<not> endsWith l ''*/'') ls
      else if l = [] \<or> startsWith l ''//'' then scan_lines (off + length l + 1) False ls
      else if startsWith l ''/*'' then
        scan_lines (off + length l + 1) (\<not> endsWith (drop 2 l) ''*/'') ls
      else if startsWith l ''import '' then
        (case scan_import off l of
           None \<Rightarrow> Inl ''SyntaxError: Unexpected token''
         | Some d \<Rightarrow>
             (case scan_lines (off + length l + 1) False ls of
                Inl err \<Rightarrow> Inl err
              | Inr ds \<Rightarrow> Inr (d # ds)))
      else Inl ''SyntaxError: Unexpected token'')"

definition model_parse :: "string \<Rightarrow> string + import_declaration list" where
  "model_parse text = scan_lines 0 False (split_on (CHR 0x0A) text)"

definition model_env :: env where
  "model_env =
     \<lparr> parse = model_parse,
       getAllParentDirectories = model_getAllParentDirectories,
       evaluateFilePath = model_evaluateFilePath,
       areFilesEqual = model_areFilesEqual,
       areImportsEquals = model_areImportsEquals \<rparr>"

text \<open>The texts and scripts of the examples.\<close>

definition import_of :: "string \<Rightarrow> string" where
  "import_of spec = ''import '' @ dq @ spec @ dq @ '';''"

definition rewritten :: "string \<Rightarrow> string \<Rightarrow> string" where
  "rewritten orig new =
     nl @ original_line @ nl @ ''/**'' @ nl @ '' * '' @ orig @ nl @ '' */'' @ nl
       @ closing_line @ nl @ new"

definition script_at :: "string \<Rightarrow> string \<Rightarrow> script" where
  "script_at name text = \<lparr> filename = name, code = text, server = ''home'' \<rparr>"

definition node_at :: "string \<Rightarrow> nat \<Rightarrow> import_node" where
  "node_at spec off =
     \<lparr> n_filename = spec, n_start = off + 8, n_end = off + 8 + length spec,
       statementStart = off, statementEnd = off + 10 + length spec \<rparr>"

definition root_known :: "script list" where
  "root_known =
     [script_at ''/scripts/main.js'' [], script_at ''helpers.js'' [],
      script_at ''/scripts/helpers.js'' []]"

definition util_known :: "script list" where
  "util_known = [script_at ''/scripts/main.js'' [], script_at ''scripts/util.js'' []]"

definition two_imports :: string where
  "two_imports = import_of ''./helpers.js'' @ nl @ import_of ''./helpers.js''"

definition helpers_then_missing :: string where
  "helpers_then_missing = import_of ''./helpers.js'' @ nl @ import_of ''missing.js''"

definition example_server :: base_server where
  "example_server =
     \<lparr> hostname = ''home'',
       scripts = [script_at ''a.js'' ''// nothing'', script_at ''bad.js'' '')'',
                  script_at ''notes.txt'' (import_of ''./a.js''),
                  script_at ''b.js'' (import_of ''./a.js'')] \<rparr>"

definition quiet_server :: base_server where
  "quiet_server = \<lparr> hostname = ''home'', scripts = [script_at ''a.js'' ''// nothing''] \<rparr>"

section \<open>Text operations\<close>

lemma substring_0: "substring s 0 k = take k s"
  by (simp add: substring_def)

lemma substring_le: "a \<le> b \<Longrightarrow> substring s a b = take (b - a) (drop a s)"
  by (simp add: substring_def max_def min_def)

text \<open>
  The text \<open>replace_import\<close> builds, read off the original text: what stood before the
  statement, the block, and the statement with the new specifier.
\<close>

lemma replace_import_text:
  assumes "statementStart node \<le> n_start node" and "n_start node \<le> length text"
  shows "replace_import text node new =
           take (statementStart node) text @ nl @ original_line @ nl @ ''/**'' @ nl
             @ '' * '' @ substring text (statementStart node) (statementEnd node) @ nl
             @ '' */'' @ nl @ closing_line @ nl
             @ substring text (statementStart node) (n_start node) @ new
             @ drop (n_end node) text"
proof -
  let ?ss = "statementStart node" and ?s = "n_start node"
  have a: "take ?ss (take ?s text @ new @ drop (n_end node) text) = take ?ss text"
    using assms by (simp add: min_def)
  have b: "drop ?ss (take ?s text @ new @ drop (n_end node) text)
             = take (?s - ?ss) (drop ?ss text) @ new @ drop (n_end node) text"
    using assms by (simp add: drop_take)
  show ?thesis
    unfolding replace_import_def Let_def substring_0 substring_from_def a b
    using assms by (simp add: substring_le)
qed

section \<open>One import\<close>

text \<open>
  C1. An import that neither strategy resolves should get the warning line before it and
  stay as it is, with the rest of the script. Line 104 appends
  \<open>substring(0, node.statementStart)\<close> a second time where the lines 79 and 98 append
  \<open>substring(node.statementStart)\<close>: the text before the statement is doubled, and the
  statement and everything after it are lost. Here the script is a comment line, the import
  of \<open>missing.js\<close> and a closing comment line.
\<close>

theorem unresolved_import_drops_statement:
  "convert model_env
     (script_at ''main.js'' (''// tool'' @ nl @ import_of ''missing.js'' @ nl @ ''// end''))
     [script_at ''main.js'' []]
   = Inr (''// tool'' @ nl @ nl @ comment @ nl @ ''// tool'' @ nl)"
  by code_simp

text \<open>
  C2. The strategies are tried in order and the first match wins. When the legacy lookup
  finds a script, the outcome is fixed by that script alone: the specifier becomes \<open>/\<close>
  followed by the file name of the first match (the text stays as it is when line 67 finds
  that root-relative form to be the specifier already), and the directory-relative
  strategy is not consulted: the result is the same for every directory normalization and
  every exact comparison, whatever candidate they would find.
\<close>

theorem legacy_root_wins:
  assumes "matchingScripts e known node = m # ms"
  shows "convert_node e dirs known text node =
           (if evaluateFilePath e (''/'' @ filename m) None = Some (n_filename node) then text
            else replace_import text node (''/'' @ filename m))
         \<and> (\<forall>e' dirs'. areImportsEquals e' = areImportsEquals e
               \<and> (\<forall>p. evaluateFilePath e' p None = evaluateFilePath e p None)
               \<longrightarrow> convert_node e' dirs' known text node = convert_node e dirs known text node)"
proof -
  have "matchingScripts e' known node = m # ms"
    if "areImportsEquals e' = areImportsEquals e" for e' :: env
    using assms that by (simp add: matchingScripts_def)
  then show ?thesis
    using assms by (simp add: convert_node_def Let_def)
qed

theorem legacy_root_wins_witness:
  "matchingScripts model_env root_known (node_at ''./helpers.js'' 0) = [script_at ''helpers.js'' []]
   \<and> rootMatchingScripts model_env root_known ''/scripts/helpers.js''
       = [script_at ''/scripts/helpers.js'' []]
   \<and> convert_node model_env [''/scripts/'', ''/''] root_known (import_of ''./helpers.js'')
         (node_at ''./helpers.js'' 0)
       = rewritten (import_of ''./helpers.js'') (import_of ''/helpers.js'')"
proof -
  have h: "matchingScripts model_env root_known (node_at ''./helpers.js'' 0)
             = [script_at ''helpers.js'' []]"
    by code_simp
  have d: "rootMatchingScripts model_env root_known ''/scripts/helpers.js''
             = [script_at ''/scripts/helpers.js'' []]"
    by code_simp
  have r: "(if evaluateFilePath model_env (''/'' @ filename (script_at ''helpers.js'' [])) None
               = Some (n_filename (node_at ''./helpers.js'' 0))
            then import_of ''./helpers.js''
            else replace_import (import_of ''./helpers.js'') (node_at ''./helpers.js'' 0)
                   (''/'' @ filename (script_at ''helpers.js'' [])))
           = rewritten (import_of ''./helpers.js'') (import_of ''/helpers.js'')"
    by code_simp
  have c: "convert_node model_env [''/scripts/'', ''/''] root_known (import_of ''./helpers.js'')
             (node_at ''./helpers.js'' 0)
           = rewritten (import_of ''./helpers.js'') (import_of ''/helpers.js'')"
    by (rule trans [OF conjunct1 [OF legacy_root_wins [OF h]] r])
  show ?thesis
    by (intro conjI h d c)
qed

text \<open>
  C3. When the legacy lookup finds a script and the root-relative form computed for it
  (\<open>newFilename\<close> of line 66) is the specifier as written, the record changes nothing:
  the text comes back as it went in, with no replacement, no block and no warning.
\<close>

theorem already_valid_import_untouched:
  assumes "matchingScripts e known node = m # ms"
      and "evaluateFilePath e (''/'' @ filename m) None = Some (n_filename node)"
  shows "convert_node e dirs known text node = text"
  using assms by (simp add: convert_node_def)

theorem already_valid_import_untouched_witness:
  "matchingScripts model_env root_known (node_at ''/helpers.js'' 0) = [script_at ''helpers.js'' []]
   \<and> evaluateFilePath model_env (''/'' @ filename (script_at ''helpers.js'' [])) None
       = Some (n_filename (node_at ''/helpers.js'' 0))
   \<and> convert_node model_env [''/scripts/'', ''/''] root_known (import_of ''/helpers.js'')
         (node_at ''/helpers.js'' 0)
       = import_of ''/helpers.js''"
proof -
  have h: "matchingScripts model_env root_known (node_at ''/helpers.js'' 0)
             = [script_at ''helpers.js'' []]"
    by code_simp
  have n: "evaluateFilePath model_env (''/'' @ filename (script_at ''helpers.js'' [])) None
             = Some (n_filename (node_at ''/helpers.js'' 0))"
    by code_simp
  show ?thesis
    by (intro conjI h n already_valid_import_untouched [OF h n])
qed

text \<open>
  C6. With no legacy match, the specifier is normalized against the parent directories of
  the importer, as written first and with \<open>.js\<close> appended when that gives null or the
  empty string; when a known script equals the normalized path (\<open>areFilesEqual\<close>), the
  specifier is replaced by the file name of the first such script as it is stored, with no
  slash put in front.
\<close>

theorem directory_relative_rewrite:
  assumes "matchingScripts e known node = []"
      and "(evaluateFilePath e (n_filename node) (Some dirs) = Some path \<and> path \<noteq> [])
           \<or> ((evaluateFilePath e (n_filename node) (Some dirs) = None
                 \<or> evaluateFilePath e (n_filename node) (Some dirs) = Some [])
               \<and> evaluateFilePath e (n_filename node @ ''.js'') (Some dirs) = Some path)"
      and "rootMatchingScripts e known path = m # ms"
  shows "convert_node e dirs known text node = replace_import text node (filename m)"
proof -
  have "evaluate_in_directory e dirs (n_filename node) = Some path"
    using assms(2) by (auto simp: evaluate_in_directory_def)
  then show ?thesis
    using assms(1,3) by (simp add: convert_node_def)
qed

theorem directory_relative_rewrite_witness:
  "matchingScripts model_env util_known (node_at ''util.js'' 0) = []
   \<and> evaluateFilePath model_env ''util.js''
         (Some (getAllParentDirectories model_env ''/scripts/main.js''))
       = Some ''/scripts/util.js''
   \<and> rootMatchingScripts model_env util_known ''/scripts/util.js''
       = [script_at ''scripts/util.js'' []]
   \<and> convert_node model_env (getAllParentDirectories model_env ''/scripts/main.js'')
         util_known (import_of ''util.js'') (node_at ''util.js'' 0)
       = rewritten (import_of ''util.js'') (import_of ''scripts/util.js'')"
proof -
  let ?dirs = "getAllParentDirectories model_env ''/scripts/main.js''"
  have h1: "matchingScripts model_env util_known (node_at ''util.js'' 0) = []"
    by code_simp
  have p: "evaluateFilePath model_env ''util.js'' (Some ?dirs) = Some ''/scripts/util.js''"
    by code_simp
  have n: "n_filename (node_at ''util.js'' 0) = ''util.js''"
    by (simp add: node_at_def)
  have h2: "(evaluateFilePath model_env (n_filename (node_at ''util.js'' 0)) (Some ?dirs)
               = Some ''/scripts/util.js'' \<and> ''/scripts/util.js'' \<noteq> [])
            \<or> ((evaluateFilePath model_env (n_filename (node_at ''util.js'' 0)) (Some ?dirs) = None
                  \<or> evaluateFilePath model_env (n_filename (node_at ''util.js'' 0)) (Some ?dirs)
                       = Some [])
                \<and> evaluateFilePath model_env (n_filename (node_at ''util.js'' 0) @ ''.js'')
                      (Some ?dirs) = Some ''/scripts/util.js'')"
    unfolding n using p by simp
  have h3: "rootMatchingScripts model_env util_known ''/scripts/util.js''
              = [script_at ''scripts/util.js'' []]"
    by code_simp
  have r: "replace_import (import_of ''util.js'') (node_at ''util.js'' 0)
             (filename (script_at ''scripts/util.js'' []))
           = rewritten (import_of ''util.js'') (import_of ''scripts/util.js'')"
    by code_simp
  have c: "convert_node model_env ?dirs util_known (import_of ''util.js'') (node_at ''util.js'' 0)
           = rewritten (import_of ''util.js'') (import_of ''scripts/util.js'')"
    by (rule trans [OF directory_relative_rewrite [OF h1 h2 h3] r])
  show ?thesis
    by (intro conjI h1 p h3 c)
qed

text \<open>
  C7. A record that is rewritten, by the legacy strategy or by the directory-relative one,
  leaves the text before its statement as it was, then the block (an empty line end, the
  opening banner line, the statement as it read before the edit inside a documentation
  comment, the closing banner line), then the statement with the text between \<open>start\<close>
  and \<open>end\<close> replaced by the new specifier, then the rest of the text.
\<close>

theorem rewritten_import_block:
  assumes "statementStart node \<le> n_start node" and "n_start node \<le> length text"
      and "(matchingScripts e known node = m # ms
              \<and> evaluateFilePath e (''/'' @ filename m) None \<noteq> Some (n_filename node)
              \<and> new = ''/'' @ filename m)
           \<or> (matchingScripts e known node = []
              \<and> evaluate_in_directory e dirs (n_filename node) = Some path
              \<and> rootMatchingScripts e known path = m # ms
              \<and> new = filename m)"
  shows "convert_node e dirs known text node =
           take (statementStart node) text @ nl @ original_line @ nl @ ''/**'' @ nl
             @ '' * '' @ substring text (statementStart node) (statementEnd node) @ nl
             @ '' */'' @ nl @ closing_line @ nl
             @ substring text (statementStart node) (n_start node) @ new
             @ drop (n_end node) text"
proof -
  have "convert_node e dirs known text node = replace_import text node new"
    using assms(3) by (auto simp: convert_node_def)
  then show ?thesis
    using replace_import_text [OF assms(1,2)] by simp
qed

theorem rewritten_import_block_witness:
  "statementStart (node_at ''./helpers.js'' 8) \<le> n_start (node_at ''./helpers.js'' 8)
   \<and> n_start (node_at ''./helpers.js'' 8) \<le> length (''// tool'' @ nl @ import_of ''./helpers.js'')
   \<and> matchingScripts model_env root_known (node_at ''./helpers.js'' 8)
       = [script_at ''helpers.js'' []]
   \<and> convert_node model_env [''/scripts/'', ''/''] root_known
         (''// tool'' @ nl @ import_of ''./helpers.js'') (node_at ''./helpers.js'' 8)
       = ''// tool'' @ nl @ rewritten (import_of ''./helpers.js'') (import_of ''/helpers.js'')"
proof -
  let ?text = "''// tool'' @ nl @ import_of ''./helpers.js''"
  let ?node = "node_at ''./helpers.js'' 8"
  have w1: "statementStart ?node \<le> n_start ?node"
    by (simp add: node_at_def)
  have w2: "n_start ?node \<le> length ?text"
    by (simp add: node_at_def import_of_def nl_def dq_def)
  have h: "matchingScripts model_env root_known ?node = [script_at ''helpers.js'' []]"
    by code_simp
  have n: "evaluateFilePath model_env (''/'' @ filename (script_at ''helpers.js'' [])) None
             \<noteq> Some (n_filename ?node)"
    by code_simp
  have a: "(matchingScripts model_env root_known ?node = [script_at ''helpers.js'' []]
              \<and> evaluateFilePath model_env (''/'' @ filename (script_at ''helpers.js'' [])) None
                   \<noteq> Some (n_filename ?node)
              \<and> ''/helpers.js'' = ''/'' @ filename (script_at ''helpers.js'' []))
           \<or> (matchingScripts model_env root_known ?node = []
              \<and> evaluate_in_directory model_env [''/scripts/'', ''/''] (n_filename ?node) = Some []
              \<and> rootMatchingScripts model_env root_known [] = [script_at ''helpers.js'' []]
              \<and> ''/helpers.js'' = filename (script_at ''helpers.js'' []))"
    using h n by (simp add: script_at_def)
  have r: "take (statementStart ?node) ?text @ nl @ original_line @ nl @ ''/**'' @ nl
             @ '' * '' @ substring ?text (statementStart ?node) (statementEnd ?node) @ nl
             @ '' */'' @ nl @ closing_line @ nl
             @ substring ?text (statementStart ?node) (n_start ?node) @ ''/helpers.js''
             @ drop (n_end ?node) ?text
           = ''// tool'' @ nl @ rewritten (import_of ''./helpers.js'') (import_of ''/helpers.js'')"
    by code_simp
  have c: "convert_node model_env [''/scripts/'', ''/''] root_known ?text ?node
           = ''// tool'' @ nl @ rewritten (import_of ''./helpers.js'') (import_of ''/helpers.js'')"
    by (rule trans [OF rewritten_import_block [OF w1 w2 a] r])
  show ?thesis
    by (intro conjI w1 w2 h c)
qed

section \<open>The order of the edits\<close>

text \<open>
  Every edit of the loop leaves the text before the statement it works on as it was, and
  the new text reaches at least as far as the start of that statement.
\<close>

lemma replace_import_prefix:
  assumes "k \<le> statementStart node" and "statementStart node \<le> n_start node"
      and "n_start node \<le> length text"
  shows "take k (replace_import text node new) = take k text"
    and "statementStart node \<le> length (replace_import text node new)"
  using assms
  by (simp_all add: replace_import_def Let_def substring_0 substring_from_def min_def)

lemma place_comment_prefix:
  assumes "k \<le> statementStart node" and "statementStart node \<le> length text"
  shows "take k (place_comment text node) = take k text"
    and "statementStart node \<le> length (place_comment text node)"
  using assms by (simp_all add: place_comment_def substring_0 min_def)

lemma convert_node_prefix:
  assumes "k \<le> statementStart node" and "statementStart node \<le> n_start node"
      and "n_start node \<le> length text"
  shows "take k (convert_node e dirs known text node) = take k text"
    and "statementStart node \<le> length (convert_node e dirs known text node)"
proof -
  have s: "statementStart node \<le> length text"
    using assms by simp
  show "take k (convert_node e dirs known text node) = take k text"
    using replace_import_prefix(1) [OF assms] place_comment_prefix(1) [OF assms(1) s]
    by (simp add: convert_node_def Let_def split: list.splits option.splits)
  show "statementStart node \<le> length (convert_node e dirs known text node)"
    using replace_import_prefix(2) [OF assms] place_comment_prefix(2) [OF assms(1) s] s
    by (simp add: convert_node_def Let_def split: list.splits option.splits)
qed

text \<open>
  Sorting by descending \<open>start\<close> puts statements that do not overlap in the order of
  their position, last statement first.
\<close>

lemma disjoint_nodes_sorted_wrt:
  "disjoint_nodes ns =
     sorted_wrt (\<lambda>a b. statementEnd b \<le> statementStart a \<or> statementEnd a \<le> statementStart b) ns"
  by (induction ns) (auto simp: list_all_iff)

lemma sorted_wrt_insort_key:
  assumes "\<And>a b. P a b \<Longrightarrow> P b a"
  shows "sorted_wrt P (insort_key f x xs) = sorted_wrt P (x # xs)"
  using assms by (induction xs) (auto simp: set_insort_key)

lemma sorted_wrt_sort_key:
  assumes "\<And>a b. P a b \<Longrightarrow> P b a"
  shows "sorted_wrt P (sort_key f xs) = sorted_wrt P xs"
  using assms by (induction xs) (simp_all add: sorted_wrt_insort_key)

lemma sort_nodes_descending:
  "sorted_wrt (\<lambda>a b. n_start b \<le> n_start a) (sort_nodes ns)"
proof -
  have "sorted (map (\<lambda>n. - int (n_start n)) (sort_key (\<lambda>n. - int (n_start n)) ns))"
    by (rule sorted_sort_key)
  then show ?thesis
    by (simp add: sort_nodes_def sorted_map)
qed

lemma sort_nodes_order:
  assumes "wf_nodes text ns"
  shows "sorted_wrt (\<lambda>a b. statementEnd b \<le> statementStart a) (sort_nodes ns)"
    and "list_all (wf_node text) (sort_nodes ns)"
proof -
  let ?D = "\<lambda>a b. statementEnd b \<le> statementStart a \<or> statementEnd a \<le> statementStart b"
  have wf: "list_all (wf_node text) (sort_nodes ns)"
    using assms by (simp add: wf_nodes_def sort_nodes_def list_all_iff)
  have "sorted_wrt ?D ns"
    using assms by (simp add: wf_nodes_def disjoint_nodes_sorted_wrt)
  then have d: "sorted_wrt ?D (sort_nodes ns)"
    unfolding sort_nodes_def by (subst sorted_wrt_sort_key) auto
  have "statementEnd (sort_nodes ns ! j) \<le> statementStart (sort_nodes ns ! i)"
    if "i < j" and "j < length (sort_nodes ns)" for i j
  proof -
    let ?a = "sort_nodes ns ! i" and ?b = "sort_nodes ns ! j"
    have "?D ?a ?b"
      using d that by (simp add: sorted_wrt_iff_nth_less)
    moreover have "n_start ?b \<le> n_start ?a"
      using sort_nodes_descending [of ns] that by (simp add: sorted_wrt_iff_nth_less)
    moreover have "wf_node text ?a" and "wf_node text ?b"
      using wf that by (simp_all add: list_all_length)
    ultimately show ?thesis
      by (auto simp: wf_node_def)
  qed
  then show "sorted_wrt (\<lambda>a b. statementEnd b \<le> statementStart a) (sort_nodes ns)"
    by (simp add: sorted_wrt_iff_nth_less)
  show "list_all (wf_node text) (sort_nodes ns)"
    by (rule wf)
qed

text \<open>
  Along such a list the loop never touches the text in front of the statements still to
  come.
\<close>

lemma loop_prefix:
  assumes "sorted_wrt (\<lambda>a b. statementEnd b \<le> statementStart a) ns"
      and "list_all (wf_node text) ns"
      and "\<forall>p\<in>set ns. k \<le> statementStart p" and "k \<le> length text"
  shows "take k (foldl (convert_node e dirs known) text ns) = take k text"
  using assms
proof (induction ns arbitrary: "text")
  case Nil
  then show ?case by simp
next
  case (Cons n ns)
  let ?text' = "convert_node e dirs known text n"
  have w: "statementStart n \<le> n_start n" "n_start n \<le> length text"
    using Cons.prems(2) by (simp_all add: wf_node_def)
  have kn: "k \<le> statementStart n"
    using Cons.prems(3) by simp
  have len: "statementStart n \<le> length ?text'"
    by (rule convert_node_prefix(2) [OF order_refl w])
  have "list_all (wf_node ?text') ns"
    using Cons.prems(1,2) len by (fastforce simp: list_all_iff wf_node_def)
  then have "take k (foldl (convert_node e dirs known) ?text' ns) = take k ?text'"
    using Cons.prems(1,3) kn len by (intro Cons.IH) simp_all
  then show ?case
    using convert_node_prefix(1) [OF kn w] by simp
qed

text \<open>
  The stored offsets stay valid: for the records of a parsed script (every statement
  inside the text and around its specifier, no two statements overlapping), whenever the
  loop reaches a record, the text up to the end of its statement is still the original
  text.
\<close>

lemma stored_offsets_stay_valid:
  assumes "wf_nodes text importNodes"
      and "sort_nodes importNodes = pre @ node # post"
  shows "take (statementEnd node) (convert_nodes e dirs known text pre)
           = take (statementEnd node) text"
proof -
  note ord = sort_nodes_order [OF assms(1)]
  have "sorted_wrt (\<lambda>a b. statementEnd b \<le> statementStart a) pre"
    and "list_all (wf_node text) pre"
    and "\<forall>p\<in>set pre. statementEnd node \<le> statementStart p"
    and "statementEnd node \<le> length text"
    using ord unfolding assms(2) by (auto simp: sorted_wrt_append wf_node_def)
  then show ?thesis
    unfolding convert_nodes_def by (rule loop_prefix)
qed

lemma helpers_then_missing_wf:
  "wf_nodes helpers_then_missing [node_at ''./helpers.js'' 0, node_at ''missing.js'' 23]"
  by code_simp

text \<open>
  C4. The loop over the records sorted by descending \<open>start\<close> should give the text that
  applying the substitutions one at a time, on a tree parsed again each time, gives. No
  edit moves a statement that is still to come (\<open>stored_offsets_stay_valid\<close>), but the
  edit of line 104 is not a substitution at its statement: it drops the statement and what
  follows it and repeats what stands before it. For the import of \<open>./helpers.js\<close>
  followed by the import of \<open>missing.js\<close>, the loop treats \<open>missing.js\<close> first and so
  repeats the first import before it is rewritten; the copy stays as it was written.
  Taken one at a time on the tree of the current text, the first import is rewritten
  first, and what line 104 repeats is the rewritten import under its block.
\<close>

theorem descending_loop_differs_from_reparsing:
  "convert model_env (script_at ''/scripts/main.js'' helpers_then_missing) root_known
     = Inr (rewritten (import_of ''./helpers.js'') (import_of ''/helpers.js'') @ nl
              @ nl @ comment @ nl
              @ import_of ''./helpers.js'' @ nl)
   \<and> convert_reparsing model_env (script_at ''/scripts/main.js'' helpers_then_missing) root_known
       = Inr (rewritten (import_of ''./helpers.js'') (import_of ''/helpers.js'') @ nl
                @ nl @ comment @ nl
                @ rewritten (import_of ''./helpers.js'') (import_of ''/helpers.js'') @ nl)
   \<and> convert model_env (script_at ''/scripts/main.js'' helpers_then_missing) root_known
       \<noteq> convert_reparsing model_env (script_at ''/scripts/main.js'' helpers_then_missing)
           root_known"
  by code_simp

text \<open>
  Where line 104 is not reached the two agree: both imports of this script are rewritten.
\<close>

lemma reparsing_agrees_on_two_rewrites:
  "convert model_env (script_at ''/scripts/main.js'' two_imports) root_known
     = Inr (rewritten (import_of ''./helpers.js'') (import_of ''/helpers.js'') @ nl
              @ rewritten (import_of ''./helpers.js'') (import_of ''/helpers.js''))
   \<and> convert_reparsing model_env (script_at ''/scripts/main.js'' two_imports) root_known
       = convert model_env (script_at ''/scripts/main.js'' two_imports) root_known"
  by code_simp

section \<open>Running convert again\<close>

text \<open>
  C5. A second run over the output of the first should change nothing, and the check of
  lines 67-69 is there for it (\<open>We already replace this or it is already valid\<close>). The
  check stands in the legacy branch only and compares the specifier with the root-relative
  form, while the directory branch writes the file name as it is stored. For the spec's
  directory example (the importer \<open>/scripts/main.js\<close> imports \<open>util.js\<close>, the known
  file is \<open>scripts/util.js\<close>) the first run writes the specifier \<open>scripts/util.js\<close>;
  on the second run the legacy lookup matches that specifier, line 67 compares it with
  \<open>/scripts/util.js\<close>, and the import is rewritten once more, under a second block.
\<close>

theorem directory_rewrite_is_rewritten_again:
  "convert model_env (script_at ''/scripts/main.js'' (import_of ''util.js'')) util_known
     = Inr (rewritten (import_of ''util.js'') (import_of ''scripts/util.js''))
   \<and> convert model_env
         (script_at ''/scripts/main.js''
            (rewritten (import_of ''util.js'') (import_of ''scripts/util.js''))) util_known
       = Inr (rewritten (import_of ''util.js'') []
                @ rewritten (import_of ''scripts/util.js'') (import_of ''/scripts/util.js''))
   \<and> rewritten (import_of ''util.js'') []
         @ rewritten (import_of ''scripts/util.js'') (import_of ''/scripts/util.js'')
       \<noteq> rewritten (import_of ''util.js'') (import_of ''scripts/util.js'')"
  by code_simp

section \<open>The batch\<close>

text \<open>
  \<open>convert\<close> reads the known scripts by their file names only, so the codes the loop
  has already replaced do not matter to the scripts that follow.
\<close>

lemma convert_node_filenames:
  "convert_node e dirs known text node =
     (case filter (\<lambda>f. areImportsEquals e f (legacy_name node)) (map filename known) of
        [] \<Rightarrow>
          (case evaluate_in_directory e dirs (n_filename node) of
             None \<Rightarrow> place_comment text node
           | Some path \<Rightarrow>
               (case filter (\<lambda>f. areFilesEqual e f path) (map filename known) of
                  [] \<Rightarrow> place_comment text node
                | n # _ \<Rightarrow> replace_import text node n))
      | n # _ \<Rightarrow>
          (if evaluateFilePath e (''/'' @ n) None = Some (n_filename node) then text
           else replace_import text node (''/'' @ n)))"
  by (simp add: convert_node_def matchingScripts_def rootMatchingScripts_def Let_def
        filter_map comp_def split: list.splits option.splits)

lemma convert_node_cong:
  assumes "map filename known = map filename known'"
  shows "convert_node e dirs known = convert_node e dirs known'"
  by (intro ext) (simp only: convert_node_filenames assms)

lemma convert_cong:
  assumes "map filename known = map filename known'"
  shows "convert e scr known = convert e scr known'"
  by (simp only: convert_def convert_nodes_def convert_node_cong [OF assms])

text \<open>
  The loop over the scripts of a server, and the loop over the servers, in closed form:
  every script is converted on its own, the backups of the changed scripts follow the
  scripts, and the report is the entries of the scripts in order.
\<close>

lemma convert_scripts_eq:
  "map filename known = map filename (processed @ todo) \<Longrightarrow>
   convert_scripts e host processed todo backups txt =
     (processed @ map (converted e known) todo,
      backups @ map backup_of (filter (\<lambda>s. converted e known s \<noteq> s) todo),
      txt @ concat (map (report_entry e host known) todo))"
proof (induction todo arbitrary: processed backups "txt")
  case Nil
  then show ?case by simp
next
  case (Cons scr rest)
  have k: "convert e scr (processed @ scr # rest) = convert e scr known"
    using Cons.prems by (intro convert_cong) simp
  have f: "map filename known = map filename ((processed @ [s]) @ rest)"
    if "filename s = filename scr" for s
    using Cons.prems that by simp
  show ?case
  proof (cases "isMigrated scr")
    case False
    then show ?thesis
      using Cons.IH [OF f [of scr]] by (simp add: converted_def report_entry_def)
  next
    case True
    show ?thesis
    proof (cases "convert e scr known")
      case (Inl err)
      then show ?thesis
        using True k Cons.IH [OF f [of scr]] by (simp add: converted_def report_entry_def)
    next
      case (Inr code')
      show ?thesis
      proof (cases "code scr = code'")
        case True
        then show ?thesis
          using \<open>isMigrated scr\<close> k Inr Cons.IH [OF f [of scr]]
          by (simp add: converted_def report_entry_def)
      next
        case False
        then have ne: "scr\<lparr>code := code'\<rparr> \<noteq> scr"
          by (metis script.select_convs(2) script.surjective script.update_convs(2))
        show ?thesis
          using \<open>isMigrated scr\<close> k Inr False ne Cons.IH [OF f [of "scr\<lparr>code := code'\<rparr>"]]
          by (simp add: converted_def report_entry_def)
      qed
    qed
  qed
qed

lemma convert_servers_eq:
  "convert_servers e servers txt =
     (map (migrated_server e) servers, txt @ concat (map (server_report e) servers))"
proof (induction servers arbitrary: "txt")
  case Nil
  then show ?case by simp
next
  case (Cons srv rest)
  have "convert_scripts e (hostname srv) [] (scripts srv) [] txt =
          ([] @ map (converted e (scripts srv)) (scripts srv),
           [] @ map backup_of (filter (\<lambda>s. converted e (scripts srv) s \<noteq> s) (scripts srv)),
           txt @ concat (map (report_entry e (hostname srv) (scripts srv)) (scripts srv)))"
    by (rule convert_scripts_eq) simp
  then show ?case
    using Cons.IH by (simp add: migrated_server_def server_report_def)
qed

lemma rewriteImports_eq:
  "rewriteImports e servers =
     (map (migrated_server e) servers,
      if concat (map (server_report e) servers) \<noteq> []
      then Some (''IMPORT_DETECTED_CHANGES.txt'', concat (map (server_report e) servers))
      else None)"
  by (simp add: rewriteImports_def convert_servers_eq)

lemma concat_map_filter:
  assumes "\<And>x. \<not> P x \<Longrightarrow> f x = []"
  shows "concat (map f (filter P xs)) = concat (map f xs)"
  using assms by (induction xs) simp_all

text \<open>
  C8. A script whose text does not parse makes \<open>convert\<close> throw; the loop catches the
  error, adds one entry for that script with the message of the syntax error, leaves the
  script as it is and makes no backup of it. The batch runs to its end: every server and
  every other script, before and after the failing one, is converted and reported as it
  is on its own, and the report is written.
\<close>

theorem parse_failure_is_local:
  assumes "servers = earlier @ srv # later" and "scripts srv = pre @ scr # post"
      and "isMigrated scr" and "parse e (code scr) = Inl msg"
  shows "rewriteImports e servers =
           (map (migrated_server e) earlier
              @ srv\<lparr>scripts := map (converted e (scripts srv)) pre @ scr
                       # map (converted e (scripts srv)) post
                       @ map backup_of (filter (\<lambda>s. converted e (scripts srv) s \<noteq> s) (pre @ post))\<rparr>
              # map (migrated_server e) later,
            Some (''IMPORT_DETECTED_CHANGES.txt'',
                  concat (map (server_report e) earlier)
                    @ concat (map (report_entry e (hostname srv) (scripts srv)) pre)
                    @ failed_entry (hostname srv) scr
                        (''Error processing script for migration, parse error: '' @ msg)
                    @ concat (map (report_entry e (hostname srv) (scripts srv)) post)
                    @ concat (map (server_report e) later)))"
proof -
  have c: "convert e scr (scripts srv)
             = Inl (''Error processing script for migration, parse error: '' @ msg)"
    using assms(4) by (simp add: convert_def)
  have same: "converted e (scripts srv) scr = scr"
    using c by (simp add: converted_def)
  have entry: "report_entry e (hostname srv) (scripts srv) scr
                 = failed_entry (hostname srv) scr
                     (''Error processing script for migration, parse error: '' @ msg)"
    using assms(3) c by (simp add: report_entry_def)
  have m: "migrated_server e srv =
             srv\<lparr>scripts := map (converted e (scripts srv)) pre @ scr
                      # map (converted e (scripts srv)) post
                      @ map backup_of (filter (\<lambda>s. converted e (scripts srv) s \<noteq> s) (pre @ post))\<rparr>"
    unfolding migrated_server_def by (subst (2 4) assms(2)) (simp add: same)
  have r: "server_report e srv =
             concat (map (report_entry e (hostname srv) (scripts srv)) pre)
               @ failed_entry (hostname srv) scr
                   (''Error processing script for migration, parse error: '' @ msg)
               @ concat (map (report_entry e (hostname srv) (scripts srv)) post)"
    unfolding server_report_def by (subst (2) assms(2)) (simp add: entry)
  have ne: "failed_entry (hostname srv) scr
              (''Error processing script for migration, parse error: '' @ msg) \<noteq> []"
    by (simp add: failed_entry_def)
  show ?thesis
    unfolding rewriteImports_eq assms(1) using ne by (simp add: m r)
qed

theorem parse_failure_is_local_witness:
  "scripts example_server
     = [script_at ''a.js'' ''// nothing''] @ script_at ''bad.js'' '')''
         # [script_at ''notes.txt'' (import_of ''./a.js''), script_at ''b.js'' (import_of ''./a.js'')]
   \<and> isMigrated (script_at ''bad.js'' '')'')
   \<and> parse model_env (code (script_at ''bad.js'' '')'')) = Inl ''SyntaxError: Unexpected token''
   \<and> snd (rewriteImports model_env [example_server])
       = Some (''IMPORT_DETECTED_CHANGES.txt'',
               ''// Failed to convert bad.js on home, reason: Error: Error processing script for migration, parse error: SyntaxError: Unexpected token''
                 @ nl @ ''// Changed import statements in b.js on home'')
   \<and> map code (scripts (hd (fst (rewriteImports model_env [example_server]))))
       = [''// nothing'', '')'', import_of ''./a.js'',
          rewritten (import_of ''./a.js'') (import_of ''/a.js''), import_of ''./a.js'']"
proof -
  have h1: "[example_server] = [] @ example_server # []"
    by simp
  have h2: "scripts example_server
     = [script_at ''a.js'' ''// nothing''] @ script_at ''bad.js'' '')''
         # [script_at ''notes.txt'' (import_of ''./a.js''), script_at ''b.js'' (import_of ''./a.js'')]"
    by (simp add: example_server_def)
  have h3: "isMigrated (script_at ''bad.js'' '')'')"
    by code_simp
  have h4: "parse model_env (code (script_at ''bad.js'' '')'')) = Inl ''SyntaxError: Unexpected token''"
    by code_simp
  note t = parse_failure_is_local [OF h1 h2 h3 h4]
  have r: "snd (rewriteImports model_env [example_server])
       = Some (''IMPORT_DETECTED_CHANGES.txt'',
               ''// Failed to convert bad.js on home, reason: Error: Error processing script for migration, parse error: SyntaxError: Unexpected token''
                 @ nl @ ''// Changed import statements in b.js on home'')"
    unfolding t by code_simp
  have s: "map code (scripts (hd (fst (rewriteImports model_env [example_server]))))
       = [''// nothing'', '')'', import_of ''./a.js'',
          rewritten (import_of ''./a.js'') (import_of ''/a.js''), import_of ''./a.js'']"
    unfolding t by code_simp
  show ?thesis
    by (intro conjI h2 h3 h4 r s)
qed

text \<open>
  C9, as claimed: every processed script has an entry in the report, an unchanged one too.
  A server with one script without imports is processed, the text comes back unchanged,
  and nothing is reported: line 119 continues with the next script, and with an empty
  \<open>txt\<close> no report is written at all.
\<close>

theorem unchanged_script_has_no_entry:
  "isMigrated (script_at ''a.js'' ''// nothing'')
   \<and> convert model_env (script_at ''a.js'' ''// nothing'') (scripts quiet_server)
       = Inr (code (script_at ''a.js'' ''// nothing''))
   \<and> rewriteImports model_env [quiet_server] = ([quiet_server], None)"
  by code_simp

text \<open>
  C9, amended: the report is the entries of the processed scripts in order, where a script
  whose text changed adds \<open>// Changed import statements in\<close> with its name and host, a
  script that failed adds \<open>// Failed to convert\<close> with its name, host and the reason,
  and a script whose text is unchanged adds nothing; a report with no entry is not
  written.
\<close>

theorem report_lists_changes_and_failures:
  "snd (rewriteImports e servers) =
     (let txt = concat (map (\<lambda>srv. concat (map (\<lambda>scr.
                   if isMigrated scr then
                     (case convert e scr (scripts srv) of
                        Inr code' \<Rightarrow>
                          if code scr = code' then [] else changed_entry (hostname srv) scr
                      | Inl err \<Rightarrow> failed_entry (hostname srv) scr err)
                   else []) (scripts srv))) servers)
      in if txt \<noteq> [] then Some (''IMPORT_DETECTED_CHANGES.txt'', txt) else None)"
proof -
  have entry: "report_entry e host known =
                 (\<lambda>scr. if isMigrated scr then
                           (case convert e scr known of
                              Inr code' \<Rightarrow> if code scr = code' then [] else changed_entry host scr
                            | Inl err \<Rightarrow> failed_entry host scr err)
                         else [])" for host known
    by (intro ext) (simp add: report_entry_def)
  have "server_report e = (\<lambda>srv. concat (map (\<lambda>scr.
                   if isMigrated scr then
                     (case convert e scr (scripts srv) of
                        Inr code' \<Rightarrow>
                          if code scr = code' then [] else changed_entry (hostname srv) scr
                      | Inl err \<Rightarrow> failed_entry (hostname srv) scr err)
                   else []) (scripts srv)))"
    by (intro ext) (simp only: server_report_def entry)
  then show ?thesis
    by (simp add: rewriteImports_eq Let_def)
qed

text \<open>
  C10. Only scripts whose file name ends in \<open>.js\<close> or \<open>.ns\<close> are converted: any
  other script is found after the batch where it was and as it was, and the report is made
  of the entries of the \<open>.js\<close> and \<open>.ns\<close> scripts alone.
\<close>

theorem other_files_are_skipped:
  assumes "i < length servers" and "j < length (scripts (servers ! i))"
      and "\<not> isMigrated (scripts (servers ! i) ! j)"
  shows "scripts (fst (rewriteImports e servers) ! i) ! j = scripts (servers ! i) ! j
         \<and> snd (convert_servers e servers [])
             = concat (map (\<lambda>srv. concat (map (report_entry e (hostname srv) (scripts srv))
                                             (filter isMigrated (scripts srv)))) servers)"
proof
  have "scripts (migrated_server e (servers ! i)) ! j
          = converted e (scripts (servers ! i)) (scripts (servers ! i) ! j)"
    using assms(2) by (simp add: migrated_server_def nth_append)
  also have "\<dots> = scripts (servers ! i) ! j"
    using assms(3) by (simp add: converted_def)
  finally show "scripts (fst (rewriteImports e servers) ! i) ! j = scripts (servers ! i) ! j"
    using assms(1) by (simp add: rewriteImports_eq)
  have sr: "server_report e =
              (\<lambda>srv. concat (map (report_entry e (hostname srv) (scripts srv)) (scripts srv)))"
    by (intro ext) (simp add: server_report_def)
  have "concat (map (report_entry e host known) (filter isMigrated xs))
          = concat (map (report_entry e host known) xs)" for host known xs
    by (rule concat_map_filter) (simp add: report_entry_def)
  then show "snd (convert_servers e servers [])
               = concat (map (\<lambda>srv. concat (map (report_entry e (hostname srv) (scripts srv))
                                               (filter isMigrated (scripts srv)))) servers)"
    by (simp add: convert_servers_eq sr)
qed

theorem other_files_are_skipped_witness:
  "(0::nat) < length [example_server] \<and> (2::nat) < length (scripts ([example_server] ! 0))
   \<and> \<not> isMigrated (scripts ([example_server] ! 0) ! 2)
   \<and> scripts (fst (rewriteImports model_env [example_server]) ! 0) ! 2
       = script_at ''notes.txt'' (import_of ''./a.js'')"
proof -
  have h1: "(0::nat) < length [example_server]"
    by simp
  have h2: "(2::nat) < length (scripts ([example_server] ! 0))"
    by (simp add: example_server_def)
  have h3: "\<not> isMigrated (scripts ([example_server] ! 0) ! 2)"
    by code_simp
  have v: "scripts ([example_server] ! 0) ! 2 = script_at ''notes.txt'' (import_of ''./a.js'')"
    by (simp add: example_server_def)
  have c: "scripts (fst (rewriteImports model_env [example_server]) ! 0) ! 2
             = script_at ''notes.txt'' (import_of ''./a.js'')"
    by (rule trans [OF conjunct1 [OF other_files_are_skipped [OF h1 h2 h3]] v])
  show ?thesis
    by (intro conjI h1 h2 h3 c)
qed

end
